theory Spec2Isabelle
  imports Main
begin

section \<open>Python values, exceptions and the observable world\<close>

text \<open>
  The values that reach an f-string or the logging collaborator: \<open>None\<close>, a \<open>str\<close> or a
  \<open>bool\<close>. \<open>py_str\<close> is Python's \<open>str()\<close> on them, which is what \<open>f'{x}'\<close> and
  \<open>'{}'.format(x)\<close> render.
\<close>

datatype pyval = PyNone | PyStr string | PyBool bool

fun py_str :: "pyval \<Rightarrow> string" where
  "py_str PyNone = ''None''"
| "py_str (PyStr s) = s"
| "py_str (PyBool b) = (if b then ''True'' else ''False'')"

abbreviation nl :: string where
  "nl \<equiv> [CHR 0x0A]"

text \<open>Python's \<open>sep.join(xs)\<close> on a list of strings.\<close>

fun py_join :: "string \<Rightarrow> string list \<Rightarrow> string" where
  "py_join sep [] = []"
| "py_join sep [x] = x"
| "py_join sep (x # y # ys) = x @ sep @ py_join sep (y # ys)"

text \<open>
  What the handlers read from an exception object: \<open>type(e).__name__\<close>, \<open>str(e)\<close> and
  the text \<open>traceback.format_exc()\<close> returns while \<open>e\<close> is being handled.
\<close>

record exc_info =
  exc_type :: string
  exc_str :: string
  exc_trace :: string

text \<open>
  The classes the \<open>except\<close> clauses of \<open>jam_parser\<close> tell apart. \<open>SystemExit n\<close> is what
  \<open>sys.exit(n)\<close> raises; \<open>OtherBaseException\<close> stands for the remaining subclasses of
  \<open>BaseException\<close> that are not subclasses of \<open>Exception\<close> (\<open>GeneratorExit\<close>, user-defined
  ones). \<open>JAMException\<close> covers the class and its subclasses, \<open>exc_type\<close> holding the
  name of the actual class.
\<close>

datatype exn =
    KeyboardInterrupt
  | JAMException exc_info
  | OtherException exc_info
  | SystemExit int
  | OtherBaseException exc_info

datatype level = ERROR | INFO

datatype stream = Stdout | Stderr

text \<open>The calls made on the two external collaborators, in order.\<close>

datatype event =
    ParseArgs "string list"
  | LoggerSetup pyval string string string bool pyval

text \<open>
  The world a run can change: the text written to \<open>sys.stdout\<close> and \<open>sys.stderr\<close>, the
  records handed to the loggers \<open>default\<close> and \<open>warnings\<close> (what their handlers do with
  them is the logging subsystem's business), and the collaborator calls.
\<close>

record world =
  stdout :: string
  stderr :: string
  default_log :: "(level \<times> string) list"
  warnings_log :: "(level \<times> string) list"
  events :: "event list"

definition file_write :: "stream \<Rightarrow> string \<Rightarrow> world \<Rightarrow> world" where
  "file_write f s w =
     (case f of
        Stdout \<Rightarrow> w\<lparr>stdout := stdout w @ s\<rparr>
      | Stderr \<Rightarrow> w\<lparr>stderr := stderr w @ s\<rparr>)"

definition log_error :: "string \<Rightarrow> world \<Rightarrow> world" where
  "log_error m w = w\<lparr>default_log := default_log w @ [(ERROR, m)]\<rparr>"

definition warn_info :: "string \<Rightarrow> world \<Rightarrow> world" where
  "warn_info m w = w\<lparr>warnings_log := warnings_log w @ [(INFO, m)]\<rparr>"

section \<open>External collaborators\<close>

text \<open>
  The parsed arguments (\<open>argparse.Namespace\<close>): attribute name to value; \<open>hasattr\<close> is
  membership in the domain.
\<close>

type_synonym namespace = "string \<rightharpoonup> pyval"

text \<open>
  What one call of the base class's \<open>parse_args\<close> does with the tokens \<open>sys.argv[1:]\<close>:
  it returns a namespace, or calls \<open>self.error(message)\<close>, or (help action) calls
  \<open>self.print_help()\<close> and then \<open>self.exit()\<close>, or raises an exception of its own (a
  \<open>type\<close> callable or an action that raises, \<open>ArgumentError\<close> under
  \<open>exit_on_error=False\<close>).
\<close>

datatype parse_result = Parsed namespace | Rejected string | HelpRequested | Raises exn

text \<open>The places where a statement of this module itself raises \<open>IndexError\<close>.\<close>

datatype site = ArgvIndex | HelpIndex

text \<open>
  The collaborators, taken as parameters: \<open>colour(text, fg)\<close> of \<open>corejam.logging\<close>; the
  argument grammar of the base parser, which is given the world at the call (with the
  calls made so far), so that two calls on the same tokens may answer differently;
  \<open>logger_setup\<close> of \<open>corejam.logging\<close> (\<open>None\<close>: it returns; \<open>Some e\<close>: it raises \<open>e\<close>);
  the rendering of a traceback for an exception raised by this module; and Python's
  \<open>str.upper()\<close> on a one-character string, which may return several characters.
  \<open>gettext\<close> is taken with no catalogue installed, so it returns its argument.
\<close>

record env =
  colour :: "string \<Rightarrow> string \<Rightarrow> string"
  grammar :: "world \<Rightarrow> string list \<Rightarrow> parse_result"
  logger_setup :: "pyval \<Rightarrow> string \<Rightarrow> string \<Rightarrow> string \<Rightarrow> bool \<Rightarrow> pyval \<Rightarrow> exn option"
  format_exc_at :: "site \<Rightarrow> string"
  str_upper :: "string \<Rightarrow> string"

definition IndexError :: "env \<Rightarrow> site \<Rightarrow> string \<Rightarrow> exn" where
  "IndexError E s m =
     OtherException \<lparr>exc_type = ''IndexError'', exc_str = m, exc_trace = format_exc_at E s\<rparr>"

section \<open>CustomArgParser\<close>

text \<open>
  The base parser's state this module reads: \<open>self.prog\<close> and the text \<open>format_help()\<close>
  returns, given as the list of its characters (each character of the Python string as
  its bytes), since \<open>print_help\<close> indexes it by character. The subclass adds
  \<open>self._version\<close> (\<open>ver\<close>) and \<open>self._url\<close> (\<open>url\<close>).
\<close>

record base_parser =
  prog :: string
  format_help :: "string list"

record parser = base_parser +
  ver :: pyval
  url :: pyval

text \<open>
  \<open>__init__\<close>: \<open>ver\<close> and \<open>url\<close> are popped from the keyword arguments when present, the
  rest goes to the base class's constructor \<open>super_init\<close>.
\<close>

definition CustomArgParser_init ::
  "((string \<rightharpoonup> pyval) \<Rightarrow> base_parser) \<Rightarrow> (string \<rightharpoonup> pyval) \<Rightarrow> parser" where
  "CustomArgParser_init super_init kwargs =
     (let (v, k1) = (case kwargs ''ver'' of
                       Some x \<Rightarrow> (x, kwargs(''ver'' := None))
                     | None \<Rightarrow> (PyNone, kwargs));
          (u, k2) = (case k1 ''url'' of
                       Some x \<Rightarrow> (x, k1(''url'' := None))
                     | None \<Rightarrow> (PyNone, k1));
          b = super_init k2
      in \<lparr>prog = prog b, format_help = format_help b, ver = v, url = u\<rparr>)"

definition print_usage :: "env \<Rightarrow> parser \<Rightarrow> stream option \<Rightarrow> world \<Rightarrow> world" where
  "print_usage E p file w =
     (let f = (case file of None \<Rightarrow> Stdout | Some f' \<Rightarrow> f');
          lines = [''  '' @ colour E (prog p @ '' v'' @ py_str (ver p)) ''blue'',
                   ''  '' @ py_str (url p),
                   '''']
      in file_write f (py_join nl lines) w)"

definition print_help :: "env \<Rightarrow> parser \<Rightarrow> stream option \<Rightarrow> world \<Rightarrow> exn option \<times> world" where
  "print_help E p file w =
     (let f = (case file of None \<Rightarrow> Stdout | Some f' \<Rightarrow> f')
      in case format_help p of
           [] \<Rightarrow> (Some (IndexError E HelpIndex ''string index out of range''), w)
         | c # cs \<Rightarrow> (None, file_write f (str_upper E c @ concat cs @ nl) w))"

text \<open>\<open>exit\<close> always raises: the result is the exception and the world it leaves.\<close>

definition exit :: "env \<Rightarrow> int \<Rightarrow> string option \<Rightarrow> world \<Rightarrow> exn \<times> world" where
  "exit E status message w =
     (case message of
        None \<Rightarrow> (SystemExit status, w)
      | Some m \<Rightarrow>
          if m \<noteq> [] then (SystemExit status, file_write Stderr (colour E m ''red'' @ nl) w)
          else (SystemExit status, w))"

definition error :: "env \<Rightarrow> parser \<Rightarrow> string \<Rightarrow> world \<Rightarrow> exn \<times> world" where
  "error E p message w =
     (let w1 = print_usage E p (Some Stderr) w
      in exit E 2 (Some (''['' @ prog p @ ''] Error: '' @ message @ nl)) w1)"

definition print_version :: "env \<Rightarrow> parser \<Rightarrow> world \<Rightarrow> world" where
  "print_version E p w =
     file_write Stdout (colour E (prog p @ '' v'' @ py_str (ver p)) ''blue'' @ nl) w"

text \<open>
  The inherited \<open>parse_args()\<close> as far as it runs this module's overrides: it reads
  \<open>sys.argv[1:]\<close> and either returns the namespace, or leaves through \<open>error\<close> or through
  \<open>print_help\<close> and \<open>exit()\<close>, or raises.
\<close>

definition parse_args :: "env \<Rightarrow> parser \<Rightarrow> string list \<Rightarrow> world \<Rightarrow> (exn + namespace) \<times> world" where
  "parse_args E p argv w =
     (let w1 = w\<lparr>events := events w @ [ParseArgs (drop 1 argv)]\<rparr>
      in case grammar E w (drop 1 argv) of
           Parsed a \<Rightarrow> (Inr a, w1)
         | Raises e \<Rightarrow> (Inl e, w1)
         | Rejected m \<Rightarrow> (let (e, w2) = error E p m w1 in (Inl e, w2))
         | HelpRequested \<Rightarrow>
             (case print_help E p None w1 of
                (Some e, w2) \<Rightarrow> (Inl e, w2)
              | (None, w2) \<Rightarrow> (let (e, w3) = exit E 0 None w2 in (Inl e, w3))))"

section \<open>jam\_parser\<close>

text \<open>
  The caller's \<open>with\<close> block: it receives the yielded namespace and either finishes
  (\<open>None\<close>) or raises.
\<close>

type_synonym block = "namespace \<Rightarrow> world \<Rightarrow> exn option \<times> world"

definition version_flags :: "string set" where
  "version_flags = {''-v'', ''--v'', ''-version'', ''--version''}"

text \<open>
  The \<open>try\<close> suite together with the \<open>with\<close> block run at the \<open>yield\<close>: an exception of
  the block is thrown into the generator at the \<open>yield\<close>, so it is an exception of the
  \<open>try\<close> suite. \<open>sys.argv[1]\<close> on an empty \<open>sys.argv\<close> raises \<open>IndexError\<close>.
\<close>

definition out_dir_arg :: "namespace \<Rightarrow> pyval" where
  "out_dir_arg args = (case args ''out_dir'' of Some v \<Rightarrow> v | None \<Rightarrow> PyNone)"

definition debug_arg :: "namespace \<Rightarrow> pyval" where
  "debug_arg args = (case args ''debug'' of Some v \<Rightarrow> v | None \<Rightarrow> PyBool False)"

definition try_suite ::
  "env \<Rightarrow> parser \<Rightarrow> string \<Rightarrow> string \<Rightarrow> string list \<Rightarrow> block \<Rightarrow> world \<Rightarrow> exn option \<times> world" where
  "try_suite E p title version argv body w =
     (if length argv = 1 then (Some (SystemExit 1), print_usage E p None w)
      else if length argv < 2 then (Some (IndexError E ArgvIndex ''list index out of range''), w)
      else if argv ! 1 \<in> version_flags then (Some (SystemExit 0), print_version E p w)
      else
        case parse_args E p argv w of
          (Inl e, w1) \<Rightarrow> (Some e, w1)
        | (Inr args, w1) \<Rightarrow>
            (let w2 = w1\<lparr>events := events w1 @
                        [LoggerSetup (out_dir_arg args) (title @ ''.log'') title version False
                           (debug_arg args)]\<rparr>
             in case logger_setup E (out_dir_arg args) (title @ ''.log'') title version False
                       (debug_arg args) of
                  Some e \<Rightarrow> (Some e, w2)
                | None \<Rightarrow>
                    (case parse_args E p argv w2 of
                       (Inl e, w3) \<Rightarrow> (Some e, w3)
                     | (Inr args', w3) \<Rightarrow> body args' w3)))"

definition handle_KeyboardInterrupt :: "world \<Rightarrow> exn \<times> world" where
  "handle_KeyboardInterrupt w =
     (SystemExit 1, log_error ''Controlled exit resulting from keyboard interrupt.'' w)"

definition handle_JAMException :: "exc_info \<Rightarrow> world \<Rightarrow> exn \<times> world" where
  "handle_JAMException e w =
     (let w1 = (if length (exc_str e) > 0 then log_error (exc_str e) w else w);
          w2 = log_error
                 ''Controlled exit resulting from an unrecoverable error or warning (see warnings.log).'' w1;
          msg = ''Controlled exit resulting from an unrecoverable error or warning.'' @ nl @ nl;
          msg = msg @ replicate 80 (CHR ''='') @ nl;
          msg = msg @ ''EXCEPTION: '' @ exc_type e @ nl;
          msg = msg @ ''  MESSAGE: '' @ exc_str e @ nl;
          msg = msg @ replicate 80 (CHR ''_'') @ nl @ nl;
          msg = msg @ exc_trace e;
          msg = msg @ replicate 80 (CHR ''='')
      in (SystemExit 1, warn_info msg w2))"

definition handle_Exception :: "exc_info \<Rightarrow> world \<Rightarrow> exn \<times> world" where
  "handle_Exception e w =
     (let w1 = (if length (exc_str e) > 0 then log_error (exc_str e) w else w);
          w2 = log_error
                 ''Uncontrolled exit resulting from an unexpected error (see warnings.log).'' w1;
          msg = ''Controlled exit resulting from an unrecoverable error or warning.'' @ nl @ nl;
          msg = msg @ replicate 80 (CHR ''='') @ nl;
          msg = msg @ ''EXCEPTION: '' @ exc_type e @ nl;
          msg = msg @ ''  MESSAGE: '' @ exc_str e @ nl;
          msg = msg @ replicate 80 (CHR ''_'') @ nl @ nl;
          msg = msg @ exc_trace e;
          msg = msg @ replicate 80 (CHR ''='')
      in (SystemExit 1, warn_info msg w2))"

text \<open>
  One \<open>with jam_parser(parser, title, version) as args: body\<close> statement. The result is
  what the statement leaves: \<open>None\<close> when it completes, \<open>Some e\<close> when \<open>e\<close> leaves it;
  \<open>Some (SystemExit n)\<close> ends the process with exit code \<open>n\<close>. The \<open>except\<close> clauses are
  tried in the source's order; \<open>SystemExit\<close> and the other non-\<open>Exception\<close> classes
  match none of them.
\<close>

definition jam_parser ::
  "env \<Rightarrow> parser \<Rightarrow> string \<Rightarrow> string \<Rightarrow> string list \<Rightarrow> block \<Rightarrow> world \<Rightarrow> exn option \<times> world" where
  "jam_parser E p title version argv body w =
     (case try_suite E p title version argv body w of
        (None, w1) \<Rightarrow> (None, w1)
      | (Some KeyboardInterrupt, w1) \<Rightarrow> (let (e, w2) = handle_KeyboardInterrupt w1 in (Some e, w2))
      | (Some (JAMException i), w1) \<Rightarrow> (let (e, w2) = handle_JAMException i w1 in (Some e, w2))
      | (Some (OtherException i), w1) \<Rightarrow> (let (e, w2) = handle_Exception i w1 in (Some e, w2))
      | (Some (SystemExit n), w1) \<Rightarrow> (Some (SystemExit n), w1)
      | (Some (OtherBaseException i), w1) \<Rightarrow> (Some (OtherBaseException i), w1))"

section \<open>Notions used to state the properties\<close>

text \<open>The classes one of the three \<open>except\<close> clauses matches.\<close>

fun caught :: "exn \<Rightarrow> bool" where
  "caught KeyboardInterrupt = True"
| "caught (JAMException i) = True"
| "caught (OtherException i) = True"
| "caught (SystemExit n) = False"
| "caught (OtherBaseException i) = False"

text \<open>
  The world in which \<open>parse_args\<close> is called the second time, and the world in which
  the \<open>with\<close> block starts, when the first call returned the namespace \<open>a\<close>: the
  collaborator calls made on the way are recorded.
\<close>

definition setup_world :: "string \<Rightarrow> string \<Rightarrow> string list \<Rightarrow> namespace \<Rightarrow> world \<Rightarrow> world" where
  "setup_world title version argv a w =
     w\<lparr>events := events w @
        [ParseArgs (drop 1 argv),
         LoggerSetup (out_dir_arg a) (title @ ''.log'') title version False (debug_arg a)]\<rparr>"

definition yield_world :: "string \<Rightarrow> string \<Rightarrow> string list \<Rightarrow> namespace \<Rightarrow> world \<Rightarrow> world" where
  "yield_world title version argv a w =
     w\<lparr>events := events w @
        [ParseArgs (drop 1 argv),
         LoggerSetup (out_dir_arg a) (title @ ''.log'') title version False (debug_arg a),
         ParseArgs (drop 1 argv)]\<rparr>"

text \<open>
  The run reaches the \<open>with\<close> block: there are arguments, the first is no version flag,
  the first \<open>parse_args\<close> call returns \<open>a1\<close>, \<open>logger_setup\<close> returns, and the second
  \<open>parse_args\<close> call returns \<open>a2\<close>.
\<close>

definition reaches_block ::
  "env \<Rightarrow> string \<Rightarrow> string \<Rightarrow> string list \<Rightarrow> world \<Rightarrow> namespace \<Rightarrow> namespace \<Rightarrow> bool" where
  "reaches_block E title version argv w a1 a2 \<longleftrightarrow>
     2 \<le> length argv \<and> argv ! 1 \<notin> version_flags \<and>
     grammar E w (drop 1 argv) = Parsed a1 \<and>
     logger_setup E (out_dir_arg a1) (title @ ''.log'') title version False (debug_arg a1) = None \<and>
     grammar E (setup_world title version argv a1 w) (drop 1 argv) = Parsed a2"

text \<open>The run reaches the block, and the block raises \<open>e\<close> and leaves the world \<open>w'\<close>.\<close>

definition block_raises ::
  "env \<Rightarrow> string \<Rightarrow> string \<Rightarrow> string list \<Rightarrow> block \<Rightarrow> world \<Rightarrow> exn \<Rightarrow> world \<Rightarrow> bool" where
  "block_raises E title version argv body w e w' \<longleftrightarrow>
     (case grammar E w (drop 1 argv) of
        Parsed a1 \<Rightarrow>
          (case grammar E (setup_world title version argv a1 w) (drop 1 argv) of
             Parsed a2 \<Rightarrow>
               reaches_block E title version argv w a1 a2 \<and>
               body a2 (yield_world title version argv a1 w) = (Some e, w')
           | Rejected m \<Rightarrow> False
           | HelpRequested \<Rightarrow> False
           | Raises x \<Rightarrow> False)
      | Rejected m \<Rightarrow> False
      | HelpRequested \<Rightarrow> False
      | Raises x \<Rightarrow> False)"

text \<open>How often \<open>parse_args\<close> has run.\<close>

fun is_ParseArgs :: "event \<Rightarrow> bool" where
  "is_ParseArgs (ParseArgs ts) = True"
| "is_ParseArgs (LoggerSetup d f t v c g) = False"

definition parse_count :: "world \<Rightarrow> nat" where
  "parse_count w = length (filter is_ParseArgs (events w))"

text \<open>The text \<open>print_usage\<close> writes, and the block the two handlers log.\<close>

definition usage_banner :: "env \<Rightarrow> parser \<Rightarrow> string" where
  "usage_banner E p =
     ''  '' @ colour E (prog p @ '' v'' @ py_str (ver p)) ''blue'' @ nl @
     ''  '' @ py_str (url p) @ nl"

definition warning_block :: "exc_info \<Rightarrow> string" where
  "warning_block e =
     ''Controlled exit resulting from an unrecoverable error or warning.'' @ nl @ nl @
     replicate 80 (CHR ''='') @ nl @
     ''EXCEPTION: '' @ exc_type e @ nl @
     ''  MESSAGE: '' @ exc_str e @ nl @
     replicate 80 (CHR ''_'') @ nl @ nl @
     exc_trace e @
     replicate 80 (CHR ''='')"

section \<open>A concrete setting\<close>

text \<open>
  A grammar with one option \<open>--out_dir DIR\<close> and the help flag, a colouring that tags
  the text, a logging setup that returns, an upper-casing of the ASCII letters, and a
  parser for the program \<open>demo\<close>.
\<close>

definition ascii_upper :: "char \<Rightarrow> char" where
  "ascii_upper c =
     (let n = (of_char c :: nat)
      in if 97 \<le> n \<and> n \<le> 122 then char_of (n - 32) else c)"

definition demo_help :: "string list" where
  "demo_help = [''u'', ''s'', ''a'', ''g'', ''e'', '':'', '' '', ''d'', ''e'', ''m'', ''o'', nl]"

fun demo_grammar :: "string list \<Rightarrow> parse_result" where
  "demo_grammar [a] = (if a = ''-h'' then HelpRequested else Rejected (''unrecognized arguments: '' @ a))"
| "demo_grammar [a, d] =
     (if a = ''--out_dir'' then Parsed [''out_dir'' \<mapsto> PyStr d]
      else Rejected (''unrecognized arguments: '' @ a))"
| "demo_grammar ts = Rejected ''unrecognized arguments''"

definition demo_env :: env where
  "demo_env =
     \<lparr>colour = (\<lambda>t fg. ''<'' @ fg @ ''>'' @ t @ ''</>''),
      grammar = (\<lambda>w. demo_grammar),
      logger_setup = (\<lambda>d f t v c g. None),
      format_exc_at = (\<lambda>s. ''Traceback (most recent call last):'' @ nl),
      str_upper = map ascii_upper\<rparr>"

definition demo_parser :: parser where
  "demo_parser =
     \<lparr>prog = ''demo'', format_help = demo_help,
      ver = PyStr ''1.2.3'', url = PyStr ''https://example.org''\<rparr>"

definition world0 :: world where
  "world0 = \<lparr>stdout = [], stderr = [], default_log = [], warnings_log = [], events = []\<rparr>"

definition raising :: "exn \<Rightarrow> block" where
  "raising e args w = (Some e, w)"

definition bad_config :: exc_info where
  "bad_config =
     \<lparr>exc_type = ''JAMException'', exc_str = ''bad config'',
      exc_trace = ''Traceback (most recent call last):'' @ nl\<rparr>"


definition demo_argv :: "string list" where
  "demo_argv = [''demo.py'', ''--out_dir'', ''out'']"

definition finishing :: block where
  "finishing args w = (None, w)"

definition demo_super :: "(string \<rightharpoonup> pyval) \<Rightarrow> base_parser" where
  "demo_super kwargs =
     \<lparr>prog = (case kwargs ''prog'' of Some v \<Rightarrow> py_str v | None \<Rightarrow> ''demo.py''),
      format_help = demo_help\<rparr>"





section \<open>Auxiliary facts\<close>

lemma print_usage_banner:
  "print_usage E p file w =
     file_write (case file of None \<Rightarrow> Stdout | Some f \<Rightarrow> f) (usage_banner E p) w"
  by (simp add: print_usage_def usage_banner_def)

lemma try_suite_reaches_block:
  assumes "reaches_block E title version argv w a1 a2"
  shows "try_suite E p title version argv body w = body a2 (yield_world title version argv a1 w)"
proof -
  from assms have len: "2 \<le> length argv" and nv: "argv ! 1 \<notin> version_flags"
    and g1: "grammar E w (drop 1 argv) = Parsed a1"
    and l: "logger_setup E (out_dir_arg a1) (title @ ''.log'') title version False (debug_arg a1) = None"
    and g2: "grammar E (setup_world title version argv a1 w) (drop 1 argv) = Parsed a2"
    by (simp_all add: reaches_block_def)
  show ?thesis
    using len nv g1 l g2
    by (simp add: try_suite_def parse_args_def yield_world_def setup_world_def)
qed

lemma try_suite_block_raises:
  assumes "block_raises E title version argv body w e w'"
  shows "try_suite E p title version argv body w = (Some e, w')"
proof -
  from assms obtain a1 a2 where r: "reaches_block E title version argv w a1 a2"
    and b: "body a2 (yield_world title version argv a1 w) = (Some e, w')"
    by (auto simp: block_raises_def split: parse_result.splits)
  show ?thesis by (simp add: try_suite_reaches_block [OF r] b)
qed

lemma handle_JAMException_eq:
  "handle_JAMException i w =
     (SystemExit 1,
      w\<lparr>default_log := default_log w @
           (if exc_str i = [] then [] else [(ERROR, exc_str i)]) @
           [(ERROR, ''Controlled exit resulting from an unrecoverable error or warning (see warnings.log).'')],
        warnings_log := warnings_log w @ [(INFO, warning_block i)]\<rparr>)"
  by (simp add: handle_JAMException_def log_error_def warn_info_def warning_block_def Let_def)

lemma handle_Exception_eq:
  "handle_Exception i w =
     (SystemExit 1,
      w\<lparr>default_log := default_log w @
           (if exc_str i = [] then [] else [(ERROR, exc_str i)]) @
           [(ERROR, ''Uncontrolled exit resulting from an unexpected error (see warnings.log).'')],
        warnings_log := warnings_log w @ [(INFO, warning_block i)]\<rparr>)"
  by (simp add: handle_Exception_def log_error_def warn_info_def warning_block_def Let_def)

lemma demo_reaches:
  "reaches_block demo_env ''demo'' ''1.2.3'' demo_argv world0
     [''out_dir'' \<mapsto> PyStr ''out''] [''out_dir'' \<mapsto> PyStr ''out'']"
  by (simp add: reaches_block_def demo_argv_def demo_env_def version_flags_def)

lemma demo_block_raises:
  "block_raises demo_env ''demo'' ''1.2.3'' demo_argv (raising e) world0 e
     (yield_world ''demo'' ''1.2.3'' demo_argv [''out_dir'' \<mapsto> PyStr ''out''] world0)"
  using demo_reaches
  by (simp add: block_raises_def demo_argv_def demo_env_def raising_def)


section \<open>The claims\<close>

text \<open>
  C1 (as amended). When the \<open>with\<close> block raises an exception that one of the three
  \<open>except\<close> clauses matches (a keyboard interrupt, a \<open>JAMException\<close>, any other instance
  of \<open>Exception\<close>), the run ends with exit code 1. An exception of another class
  (\<open>SystemExit\<close>, the other direct subclasses of \<open>BaseException\<close>) matches no clause and
  leaves the \<open>with\<close> statement unchanged, with the world as the block left it. A version
  flag as first argument ends the run with exit code 0, arguments the grammar rejects end
  it with exit code 2.
\<close>

theorem jam_parser_exit_codes:
  "(block_raises E title version argv body w e w' \<and> caught e \<longrightarrow>
      fst (jam_parser E p title version argv body w) = Some (SystemExit 1)) \<and>
   (block_raises E title version argv body w e w' \<and> \<not> caught e \<longrightarrow>
      jam_parser E p title version argv body w = (Some e, w')) \<and>
   (2 \<le> length argv \<and> argv ! 1 \<in> version_flags \<longrightarrow>
      fst (jam_parser E p title version argv body w) = Some (SystemExit 0)) \<and>
   (2 \<le> length argv \<and> argv ! 1 \<notin> version_flags \<and> grammar E w (drop 1 argv) = Rejected m \<longrightarrow>
      fst (jam_parser E p title version argv body w) = Some (SystemExit 2))"
proof (intro conjI impI)
  assume h: "block_raises E title version argv body w e w' \<and> caught e"
  then have t: "try_suite E p title version argv body w = (Some e, w')"
    by (simp add: try_suite_block_raises)
  from h show "fst (jam_parser E p title version argv body w) = Some (SystemExit 1)"
    by (cases e)
       (simp_all add: jam_parser_def t handle_KeyboardInterrupt_def handle_JAMException_eq
          handle_Exception_eq)
next
  assume h: "block_raises E title version argv body w e w' \<and> \<not> caught e"
  then have t: "try_suite E p title version argv body w = (Some e, w')"
    by (simp add: try_suite_block_raises)
  from h show "jam_parser E p title version argv body w = (Some e, w')"
    by (cases e) (simp_all add: jam_parser_def t)
next
  assume "2 \<le> length argv \<and> argv ! 1 \<in> version_flags"
  then show "fst (jam_parser E p title version argv body w) = Some (SystemExit 0)"
    by (simp add: jam_parser_def try_suite_def)
next
  assume "2 \<le> length argv \<and> argv ! 1 \<notin> version_flags \<and> grammar E w (drop 1 argv) = Rejected m"
  then show "fst (jam_parser E p title version argv body w) = Some (SystemExit 2)"
    by (simp add: jam_parser_def try_suite_def parse_args_def error_def exit_def)
qed

theorem jam_parser_exit_codes_witness:
  "block_raises demo_env ''demo'' ''1.2.3'' demo_argv (raising KeyboardInterrupt) world0
     KeyboardInterrupt
     (yield_world ''demo'' ''1.2.3'' demo_argv [''out_dir'' \<mapsto> PyStr ''out''] world0) \<and>
   caught KeyboardInterrupt \<and>
   fst (jam_parser demo_env demo_parser ''demo'' ''1.2.3'' demo_argv (raising KeyboardInterrupt)
          world0) = Some (SystemExit 1) \<and>
   \<not> caught (SystemExit 3) \<and>
   fst (jam_parser demo_env demo_parser ''demo'' ''1.2.3'' demo_argv (raising (SystemExit 3))
          world0) = Some (SystemExit 3) \<and>
   [''demo.py'', ''--version''] ! 1 \<in> version_flags \<and>
   fst (jam_parser demo_env demo_parser ''demo'' ''1.2.3'' [''demo.py'', ''--version''] finishing
          world0) = Some (SystemExit 0) \<and>
   grammar demo_env world0 (drop 1 [''demo.py'', ''--bogus'']) = Rejected ''unrecognized arguments: --bogus'' \<and>
   fst (jam_parser demo_env demo_parser ''demo'' ''1.2.3'' [''demo.py'', ''--bogus''] finishing
          world0) = Some (SystemExit 2)"
proof -
  let ?y = "yield_world ''demo'' ''1.2.3'' demo_argv [''out_dir'' \<mapsto> PyStr ''out''] world0"
  have b1: "block_raises demo_env ''demo'' ''1.2.3'' demo_argv (raising KeyboardInterrupt) world0
      KeyboardInterrupt ?y"
    by (rule demo_block_raises)
  have b2: "block_raises demo_env ''demo'' ''1.2.3'' demo_argv (raising (SystemExit 3)) world0
      (SystemExit 3) ?y"
    by (rule demo_block_raises)
  have v: "[''demo.py'', ''--version''] ! 1 \<in> version_flags"
    by (simp add: version_flags_def)
  have nv: "[''demo.py'', ''--bogus''] ! 1 \<notin> version_flags"
    by (simp add: version_flags_def)
  have g: "grammar demo_env world0 (drop 1 [''demo.py'', ''--bogus'']) = Rejected ''unrecognized arguments: --bogus''"
    by (simp add: demo_env_def)
  note T = jam_parser_exit_codes
  from T [of demo_env "''demo''" "''1.2.3''" demo_argv "raising KeyboardInterrupt" world0
      KeyboardInterrupt ?y demo_parser] b1
  have r1: "fst (jam_parser demo_env demo_parser ''demo'' ''1.2.3'' demo_argv
      (raising KeyboardInterrupt) world0) = Some (SystemExit 1)"
    by simp
  from T [of demo_env "''demo''" "''1.2.3''" demo_argv "raising (SystemExit 3)" world0
      "SystemExit 3" ?y demo_parser] b2
  have r2: "fst (jam_parser demo_env demo_parser ''demo'' ''1.2.3'' demo_argv
      (raising (SystemExit 3)) world0) = Some (SystemExit 3)"
    by simp
  from T [of demo_env "''demo''" "''1.2.3''" "[''demo.py'', ''--version'']" finishing world0
      _ _ demo_parser] v
  have r3: "fst (jam_parser demo_env demo_parser ''demo'' ''1.2.3'' [''demo.py'', ''--version'']
      finishing world0) = Some (SystemExit 0)"
    by simp
  from T [of demo_env "''demo''" "''1.2.3''" "[''demo.py'', ''--bogus'']" finishing world0
      _ _ demo_parser "''unrecognized arguments: --bogus''"] nv g
  have r4: "fst (jam_parser demo_env demo_parser ''demo'' ''1.2.3'' [''demo.py'', ''--bogus'']
      finishing world0) = Some (SystemExit 2)"
    by simp
  from b1 r1 r2 v r3 g r4 show ?thesis by simp
qed

text \<open>
  C1 as stated fails: a block that calls \<open>sys.exit(3)\<close> raises \<open>SystemExit\<close>, which no
  \<open>except\<close> clause matches; it propagates past the guard, nothing is logged, and the
  exit code is 3, not 1.
\<close>

theorem caught_every_exception_counterexample:
  "block_raises demo_env ''demo'' ''1.2.3'' demo_argv (raising (SystemExit 3)) world0 (SystemExit 3)
     (yield_world ''demo'' ''1.2.3'' demo_argv [''out_dir'' \<mapsto> PyStr ''out''] world0) \<and>
   jam_parser demo_env demo_parser ''demo'' ''1.2.3'' demo_argv (raising (SystemExit 3)) world0 =
     (Some (SystemExit 3),
      yield_world ''demo'' ''1.2.3'' demo_argv [''out_dir'' \<mapsto> PyStr ''out''] world0) \<and>
   fst (jam_parser demo_env demo_parser ''demo'' ''1.2.3'' demo_argv (raising (SystemExit 3)) world0)
     \<noteq> Some (SystemExit 1)"
  using demo_block_raises [of "SystemExit 3"]
  by (simp add: jam_parser_def try_suite_block_raises [OF demo_block_raises])

text \<open>
  C2. With no command-line argument (\<open>sys.argv\<close> holds the program name only) the usage
  banner is written to standard output, the run ends with exit code 1, and
  \<open>parse_args\<close> is not called.
\<close>

theorem jam_parser_no_arguments:
  "jam_parser E p title version [a0] body w =
     (Some (SystemExit 1), w\<lparr>stdout := stdout w @ usage_banner E p\<rparr>) \<and>
   events (snd (jam_parser E p title version [a0] body w)) = events w \<and>
   parse_count (snd (jam_parser E p title version [a0] body w)) = parse_count w"
  by (simp add: jam_parser_def try_suite_def print_usage_banner file_write_def parse_count_def)

text \<open>
  C3. When the first command-line argument is one of \<open>-v\<close>, \<open>--v\<close>, \<open>-version\<close>,
  \<open>--version\<close>, the version banner is written to standard output and the run ends with
  exit code 0, whatever arguments follow; \<open>parse_args\<close> is not called.
\<close>

theorem jam_parser_version_flag:
  assumes "f \<in> version_flags"
  shows "jam_parser E p title version (a0 # f # rest) body w =
           (Some (SystemExit 0),
            w\<lparr>stdout := stdout w @ colour E (prog p @ '' v'' @ py_str (ver p)) ''blue'' @ nl\<rparr>) \<and>
         events (snd (jam_parser E p title version (a0 # f # rest) body w)) = events w \<and>
         parse_count (snd (jam_parser E p title version (a0 # f # rest) body w)) = parse_count w"
  using assms
  by (simp add: jam_parser_def try_suite_def print_version_def file_write_def parse_count_def)

theorem jam_parser_version_flag_witness:
  "''-v'' \<in> version_flags \<and>
   jam_parser demo_env demo_parser ''demo'' ''1.2.3'' [''demo.py'', ''-v'', ''--bogus''] finishing world0 =
     (Some (SystemExit 0), world0\<lparr>stdout := ''<blue>demo v1.2.3</>'' @ nl\<rparr>)"
proof -
  have v: "''-v'' \<in> version_flags" by (simp add: version_flags_def)
  from jam_parser_version_flag [OF v, of demo_env demo_parser "''demo''" "''1.2.3''" "''demo.py''"
      "[''--bogus'']" finishing world0]
  show ?thesis using v by (simp add: demo_env_def demo_parser_def world0_def)
qed

text \<open>
  C4. When the \<open>with\<close> block raises a \<open>JAMException\<close>, the logger \<open>default\<close> receives the
  exception's message, if it is not empty, and then the fixed controlled-exit message,
  both at level \<open>ERROR\<close>; the logger \<open>warnings\<close> receives one record made of the fixed
  header, a line of 80 \<open>=\<close>, the name of the exception's class, its message, a line of
  80 \<open>_\<close>, the stack trace and a closing run of 80 \<open>=\<close>; the run ends with exit code 1.
\<close>

theorem jam_parser_JAMException:
  assumes "block_raises E title version argv body w (JAMException i) w'"
  shows "jam_parser E p title version argv body w =
           (Some (SystemExit 1),
            w'\<lparr>default_log := default_log w' @
                  (if exc_str i = [] then [] else [(ERROR, exc_str i)]) @
                  [(ERROR, ''Controlled exit resulting from an unrecoverable error or warning (see warnings.log).'')],
               warnings_log := warnings_log w' @
                  [(INFO,
                    ''Controlled exit resulting from an unrecoverable error or warning.'' @ nl @ nl @
                    replicate 80 (CHR ''='') @ nl @
                    ''EXCEPTION: '' @ exc_type i @ nl @
                    ''  MESSAGE: '' @ exc_str i @ nl @
                    replicate 80 (CHR ''_'') @ nl @ nl @
                    exc_trace i @
                    replicate 80 (CHR ''=''))]\<rparr>)"
  by (simp add: jam_parser_def try_suite_block_raises [OF assms] handle_JAMException_eq
      warning_block_def)

theorem jam_parser_JAMException_witness:
  "block_raises demo_env ''demo'' ''1.2.3'' demo_argv (raising (JAMException bad_config)) world0
     (JAMException bad_config)
     (yield_world ''demo'' ''1.2.3'' demo_argv [''out_dir'' \<mapsto> PyStr ''out''] world0) \<and>
   fst (jam_parser demo_env demo_parser ''demo'' ''1.2.3'' demo_argv
          (raising (JAMException bad_config)) world0) = Some (SystemExit 1) \<and>
   default_log (snd (jam_parser demo_env demo_parser ''demo'' ''1.2.3'' demo_argv
          (raising (JAMException bad_config)) world0)) =
     [(ERROR, ''bad config''),
      (ERROR, ''Controlled exit resulting from an unrecoverable error or warning (see warnings.log).'')] \<and>
   warnings_log (snd (jam_parser demo_env demo_parser ''demo'' ''1.2.3'' demo_argv
          (raising (JAMException bad_config)) world0)) =
     [(INFO,
       ''Controlled exit resulting from an unrecoverable error or warning.'' @ nl @ nl @
       replicate 80 (CHR ''='') @ nl @
       ''EXCEPTION: JAMException'' @ nl @
       ''  MESSAGE: bad config'' @ nl @
       replicate 80 (CHR ''_'') @ nl @ nl @
       ''Traceback (most recent call last):'' @ nl @
       replicate 80 (CHR ''=''))]"
proof -
  have b: "block_raises demo_env ''demo'' ''1.2.3'' demo_argv (raising (JAMException bad_config))
      world0 (JAMException bad_config)
      (yield_world ''demo'' ''1.2.3'' demo_argv [''out_dir'' \<mapsto> PyStr ''out''] world0)"
    by (rule demo_block_raises)
  show ?thesis
    using b jam_parser_JAMException [OF b, of demo_parser]
    by (simp add: bad_config_def yield_world_def world0_def)
qed




text \<open>
  C6. \<open>error(message)\<close> writes the usage banner to standard error, then the text
  \<open>[prog] Error: message\<close> coloured red, and raises \<open>SystemExit(2)\<close> through \<open>exit\<close>; a
  run whose arguments the grammar rejects ends that way, with exit code 2.
\<close>

theorem error_exit_2:
  "error E p message w =
     (SystemExit 2,
      w\<lparr>stderr := stderr w @ usage_banner E p @
           colour E (''['' @ prog p @ ''] Error: '' @ message @ nl) ''red'' @ nl\<rparr>) \<and>
   (2 \<le> length argv \<and> argv ! 1 \<notin> version_flags \<and> grammar E w (drop 1 argv) = Rejected message \<longrightarrow>
      jam_parser E p title version argv body w =
        (Some (SystemExit 2),
         w\<lparr>stderr := stderr w @ usage_banner E p @
              colour E (''['' @ prog p @ ''] Error: '' @ message @ nl) ''red'' @ nl,
           events := events w @ [ParseArgs (drop 1 argv)]\<rparr>))"
  by (simp add: error_def exit_def print_usage_banner file_write_def jam_parser_def try_suite_def
      parse_args_def)

theorem error_exit_2_witness:
  "2 \<le> length [''demo.py'', ''--bogus''] \<and> [''demo.py'', ''--bogus''] ! 1 \<notin> version_flags \<and>
   grammar demo_env world0 (drop 1 [''demo.py'', ''--bogus'']) = Rejected ''unrecognized arguments: --bogus'' \<and>
   jam_parser demo_env demo_parser ''demo'' ''1.2.3'' [''demo.py'', ''--bogus''] finishing world0 =
     (Some (SystemExit 2),
      world0\<lparr>stderr := ''  <blue>demo v1.2.3</>'' @ nl @ ''  https://example.org'' @ nl @
                 ''<red>[demo] Error: unrecognized arguments: --bogus'' @ nl @ ''</>'' @ nl,
             events := [ParseArgs [''--bogus'']]\<rparr>)"
proof -
  have nv: "[''demo.py'', ''--bogus''] ! 1 \<notin> version_flags"
    by (simp add: version_flags_def)
  have g: "grammar demo_env world0 (drop 1 [''demo.py'', ''--bogus'']) = Rejected ''unrecognized arguments: --bogus''"
    by (simp add: demo_env_def)
  from error_exit_2 [of demo_env demo_parser "''unrecognized arguments: --bogus''" world0
      "[''demo.py'', ''--bogus'']" "''demo''" "''1.2.3''" finishing] nv g
  have "jam_parser demo_env demo_parser ''demo'' ''1.2.3'' [''demo.py'', ''--bogus''] finishing world0 =
     (Some (SystemExit 2),
      world0\<lparr>stderr := stderr world0 @ usage_banner demo_env demo_parser @
           colour demo_env (''['' @ prog demo_parser @ ''] Error: '' @ ''unrecognized arguments: --bogus'' @ nl) ''red'' @ nl,
           events := events world0 @ [ParseArgs (drop 1 [''demo.py'', ''--bogus''])]\<rparr>)"
    by simp
  then show ?thesis
    using nv g by (simp add: usage_banner_def demo_env_def demo_parser_def world0_def)
qed




text \<open>
  C8 (as amended). \<open>print_usage(file)\<close> writes the join, by newlines, of its three
  entries: the coloured \<open>prog vVERSION\<close> and the URL, each indented by two spaces, and an
  empty string. The text written is therefore two lines, each ended by a newline, and
  no blank line follows them. Without a stream it writes to standard output. It
  returns nothing: its only result is the changed stream.
\<close>

theorem print_usage_two_lines:
  "print_usage E p None w =
     w\<lparr>stdout := stdout w @
        py_join nl [''  '' @ colour E (prog p @ '' v'' @ py_str (ver p)) ''blue'',
                    ''  '' @ py_str (url p),
                    '''']\<rparr> \<and>
   print_usage E p (Some Stdout) w = print_usage E p None w \<and>
   print_usage E p (Some Stderr) w =
     w\<lparr>stderr := stderr w @
        py_join nl [''  '' @ colour E (prog p @ '' v'' @ py_str (ver p)) ''blue'',
                    ''  '' @ py_str (url p),
                    '''']\<rparr> \<and>
   py_join nl [''  '' @ colour E (prog p @ '' v'' @ py_str (ver p)) ''blue'',
               ''  '' @ py_str (url p),
               ''''] =
     ''  '' @ colour E (prog p @ '' v'' @ py_str (ver p)) ''blue'' @ nl @
     ''  '' @ py_str (url p) @ nl \<and>
   print_usage E (p\<lparr>ver := PyStr v, url := PyStr u\<rparr>) None w =
     w\<lparr>stdout := stdout w @
        ''  '' @ colour E (prog p @ '' v'' @ v) ''blue'' @ nl @ ''  '' @ u @ nl\<rparr> \<and>
   print_usage (E\<lparr>colour := (\<lambda>t fg. t)\<rparr>)
       (p\<lparr>prog := ''demo'', ver := PyStr ''1.2.3'', url := PyStr ''https://example.org''\<rparr>) None w =
     w\<lparr>stdout := stdout w @ ''  demo v1.2.3'' @ nl @ ''  https://example.org'' @ nl\<rparr> \<and>
   count_list (''  demo v1.2.3'' @ nl @ ''  https://example.org'' @ nl) (CHR 0x0A) = 2"
  by (simp add: print_usage_def file_write_def)

text \<open>
  C8 as stated fails: for the program \<open>demo\<close>, version \<open>1.2.3\<close>, the text written holds
  two newlines, one after the version line and one after the URL line; a banner of three
  lines with a blank third line would end with one more.
\<close>

theorem three_line_banner_counterexample:
  "stdout (print_usage demo_env demo_parser None world0) =
     ''  <blue>demo v1.2.3</>'' @ nl @ ''  https://example.org'' @ nl \<and>
   count_list (stdout (print_usage demo_env demo_parser None world0)) (CHR 0x0A) = 2 \<and>
   stdout (print_usage demo_env demo_parser None world0) \<noteq>
     ''  <blue>demo v1.2.3</>'' @ nl @ ''  https://example.org'' @ nl @ nl"
  by (simp add: print_usage_def file_write_def demo_env_def demo_parser_def world0_def)

text \<open>
  C9. For a parser with program name \<open>demo\<close> and version \<open>1.2.3\<close>, \<open>print_version()\<close>
  writes the line \<open>demo v1.2.3\<close> to standard output (as it is when \<open>colour\<close> leaves the
  text alone, wrapped by \<open>colour\<close> otherwise). Two calls write the same line twice and
  change nothing else.
\<close>

theorem print_version_demo:
  "print_version (E\<lparr>colour := (\<lambda>t fg. t)\<rparr>) (p\<lparr>prog := ''demo'', ver := PyStr ''1.2.3''\<rparr>) w =
     w\<lparr>stdout := stdout w @ ''demo v1.2.3'' @ nl\<rparr> \<and>
   print_version E (p\<lparr>prog := ''demo'', ver := PyStr ''1.2.3''\<rparr>) w =
     w\<lparr>stdout := stdout w @ colour E ''demo v1.2.3'' ''blue'' @ nl\<rparr> \<and>
   print_version E p (print_version E p w) =
     w\<lparr>stdout := stdout w @
        colour E (prog p @ '' v'' @ py_str (ver p)) ''blue'' @ nl @
        colour E (prog p @ '' v'' @ py_str (ver p)) ''blue'' @ nl\<rparr>"
  by (simp add: print_version_def file_write_def)

text \<open>
  C10. A parser constructed without the keyword \<open>ver\<close> stores \<open>None\<close> as its version, and
  \<open>print_version\<close> and \<open>print_usage\<close> then render \<open>prog vNone\<close>; one constructed without
  \<open>url\<close> stores \<open>None\<close> as its URL, and \<open>print_usage\<close> renders the URL line as \<open>None\<close>.
  Both functions always return.
\<close>

theorem init_without_ver_or_url:
  "(kwargs ''ver'' = None \<longrightarrow>
      ver (CustomArgParser_init super_init kwargs) = PyNone \<and>
      print_version E (CustomArgParser_init super_init kwargs) w =
        w\<lparr>stdout := stdout w @
           colour E (prog (CustomArgParser_init super_init kwargs) @ '' vNone'') ''blue'' @ nl\<rparr> \<and>
      print_usage E (CustomArgParser_init super_init kwargs) None w =
        w\<lparr>stdout := stdout w @
           ''  '' @ colour E (prog (CustomArgParser_init super_init kwargs) @ '' vNone'') ''blue'' @ nl @
           ''  '' @ py_str (url (CustomArgParser_init super_init kwargs)) @ nl\<rparr>) \<and>
   (kwargs ''url'' = None \<longrightarrow>
      url (CustomArgParser_init super_init kwargs) = PyNone \<and>
      print_usage E (CustomArgParser_init super_init kwargs) None w =
        w\<lparr>stdout := stdout w @
           ''  '' @ colour E (prog (CustomArgParser_init super_init kwargs) @ '' v'' @
                      py_str (ver (CustomArgParser_init super_init kwargs))) ''blue'' @ nl @
           ''  None'' @ nl\<rparr>)"
proof (intro conjI impI)
  assume h: "kwargs ''ver'' = None"
  then show v: "ver (CustomArgParser_init super_init kwargs) = PyNone"
    by (simp add: CustomArgParser_init_def Let_def split: option.splits)
  show "print_version E (CustomArgParser_init super_init kwargs) w =
        w\<lparr>stdout := stdout w @
           colour E (prog (CustomArgParser_init super_init kwargs) @ '' vNone'') ''blue'' @ nl\<rparr>"
    by (simp add: print_version_def file_write_def v)
  show "print_usage E (CustomArgParser_init super_init kwargs) None w =
        w\<lparr>stdout := stdout w @
           ''  '' @ colour E (prog (CustomArgParser_init super_init kwargs) @ '' vNone'') ''blue'' @ nl @
           ''  '' @ py_str (url (CustomArgParser_init super_init kwargs)) @ nl\<rparr>"
    by (simp add: print_usage_def file_write_def v)
next
  assume h: "kwargs ''url'' = None"
  then show u: "url (CustomArgParser_init super_init kwargs) = PyNone"
    by (simp add: CustomArgParser_init_def Let_def split: option.splits)
  show "print_usage E (CustomArgParser_init super_init kwargs) None w =
        w\<lparr>stdout := stdout w @
           ''  '' @ colour E (prog (CustomArgParser_init super_init kwargs) @ '' v'' @
                      py_str (ver (CustomArgParser_init super_init kwargs))) ''blue'' @ nl @
           ''  None'' @ nl\<rparr>"
    by (simp add: print_usage_def file_write_def u)
qed

theorem init_without_ver_or_url_witness:
  "[''prog'' \<mapsto> PyStr ''demo''] ''ver'' = None \<and>
   [''prog'' \<mapsto> PyStr ''demo''] ''url'' = None \<and>
   CustomArgParser_init demo_super [''prog'' \<mapsto> PyStr ''demo''] =
     \<lparr>prog = ''demo'', format_help = demo_help, ver = PyNone, url = PyNone\<rparr> \<and>
   print_version demo_env (CustomArgParser_init demo_super [''prog'' \<mapsto> PyStr ''demo'']) world0 =
     world0\<lparr>stdout := ''<blue>demo vNone</>'' @ nl\<rparr> \<and>
   print_usage demo_env (CustomArgParser_init demo_super [''prog'' \<mapsto> PyStr ''demo'']) None world0 =
     world0\<lparr>stdout := ''  <blue>demo vNone</>'' @ nl @ ''  None'' @ nl\<rparr>"
proof -
  let ?k = "[''prog'' \<mapsto> PyStr ''demo'']"
  have k1: "?k ''ver'' = None" and k2: "?k ''url'' = None" by simp_all
  have i: "CustomArgParser_init demo_super ?k =
     \<lparr>prog = ''demo'', format_help = demo_help, ver = PyNone, url = PyNone\<rparr>"
    by (simp add: CustomArgParser_init_def demo_super_def Let_def)
  from init_without_ver_or_url [of ?k demo_super demo_env world0] k1 k2
  show ?thesis
    by (simp add: i demo_env_def world0_def)
qed

end
